theory Spec2Isabelle
  imports Main "HOL-Library.Word"
begin

unbundle bit_operations_syntax

section \<open>Go values used by package lmdbsync\<close>

text \<open>
  The package is compiled for a 64-bit platform: Go's \<open>int\<close> and \<open>uint\<close> are 64-bit
  words, \<open>int64\<close> and \<open>time.Duration\<close> (nanoseconds) are 64-bit words read as two's
  complement, \<open>os.FileMode\<close> is a 32-bit word. Signed comparisons of the source are
  written \<open><s\<close> and \<open>\<le>s\<close>; \<open>i++\<close> is \<open>i + 1\<close> on words and wraps around.
\<close>

type_synonym go_int = "64 word"
type_synonym go_uint = "64 word"
type_synonym int64 = "64 word"
type_synonym duration = "64 word"
type_synonym filemode = "32 word"

text \<open>
  A Go \<open>error\<close> is \<open>nil\<close> (here \<open>None\<close>) or a failure value. The engine has one
  distinguished failure, the map-resized one; every other failure keeps its identity
  as a string.
\<close>

datatype errval = MapResized | OtherError string

type_synonym error = "errval option"

text \<open>
  Modelled from the spec: \<open>lmdb.IsMapResized\<close> belongs to package \<open>lmdb\<close>, which is
  imported and not part of the source file. It recognises the one distinguished
  failure value that means the map was resized by another actor; \<open>nil\<close> is not it.
\<close>

definition IsMapResized :: "error \<Rightarrow> bool" where
  "IsMapResized err = (err = Some MapResized)"

section \<open>What a call can do besides returning\<close>

text \<open>
  A call returns a value, panics with an error value (\<open>panic(err)\<close>), is stopped by
  the runtime (\<open>Fatal\<close>: unlocking a mutex that is not locked), or waits for a lock
  that is never granted (\<open>Blocked\<close>).
\<close>

datatype 'a outcome = Returned 'a | Panicked errval | Fatal | Blocked

text \<open>What happened is written to a history, in the order of execution.\<close>

datatype event =
    EvLock
  | EvUnlock
  | EvRLock
  | EvRUnlock
  | EvSleep duration
  | EvOpen string go_uint filemode
  | EvSetFlags go_uint
  | EvUnsetFlags go_uint
  | EvSetMapSize int64
  | EvTxn

fun is_EvTxn :: "event \<Rightarrow> bool" where
  "is_EvTxn EvTxn = True"
| "is_EvTxn _ = False"

fun is_EvSetMapSize :: "event \<Rightarrow> bool" where
  "is_EvSetMapSize (EvSetMapSize _) = True"
| "is_EvSetMapSize _ = False"

fun is_EvOpen :: "event \<Rightarrow> bool" where
  "is_EvOpen (EvOpen _ _ _) = True"
| "is_EvOpen _ = False"

fun is_EvSetFlags :: "event \<Rightarrow> bool" where
  "is_EvSetFlags (EvSetFlags _) = True"
| "is_EvSetFlags _ = False"

fun is_EvUnsetFlags :: "event \<Rightarrow> bool" where
  "is_EvUnsetFlags (EvUnsetFlags _) = True"
| "is_EvUnsetFlags _ = False"

definition count_ev :: "(event \<Rightarrow> bool) \<Rightarrow> event list \<Rightarrow> nat" where
  "count_ev P evs = length (filter P evs)"

section \<open>The surroundings of the package\<close>

text \<open>
  Package \<open>lmdb\<close> (the storage engine) is imported, not part of the source file; what
  the package needs from it is a parameter of the model:
  the two flag bits \<open>lmdb.NoLock\<close> and \<open>lmdb.Readonly\<close>, and the result of each engine
  call. The result of the \<open>n\<close>-th call of one engine method (counting from 0 the calls
  of this method made on the environment so far) is given by a function of \<open>n\<close> and of
  the arguments.

  The two package-level variables \<open>DefaultRetryResize\<close> and
  \<open>DefaultDelayRepeatResize\<close> can be assigned by the program, so they are parameters
  too; \<open>defaults\<close> below holds their initial values.

  In \<open>retryResized\<close> the source calls \<open>r.getDelayRepeatResize()\<close> with no argument,
  although the method is declared with one (\<open>i int\<close>). The value that reaches the
  method there is not determined by the source; it is the parameter \<open>delay_arg\<close>.
\<close>

record world =
  lmdb_NoLock :: go_uint
  lmdb_Readonly :: go_uint
  lmdb_Open :: "nat \<Rightarrow> string \<Rightarrow> go_uint \<Rightarrow> filemode \<Rightarrow> error"
  lmdb_SetFlags :: "nat \<Rightarrow> go_uint \<Rightarrow> error"
  lmdb_UnsetFlags :: "nat \<Rightarrow> go_uint \<Rightarrow> error"
  lmdb_SetMapSize :: "nat \<Rightarrow> int64 \<Rightarrow> error"
  DefaultRetryResize :: go_int
  DefaultDelayRepeatResize :: duration
  delay_arg :: go_int

section \<open>The readers-writer lock\<close>

text \<open>
  \<open>sync.RWMutex\<close>, seen from the one goroutine that the model follows: the lock is
  held by a writer, or by a number of readers, or free. \<open>Lock\<close> is granted when the
  lock is free, \<open>RLock\<close> when no writer holds it. Nothing in the package releases the
  lock on behalf of another caller (every \<open>Unlock\<close> follows the \<open>Lock\<close> of the same
  function), so a request that is not granted at once is never granted.
\<close>

record rwmutex =
  w_held :: bool
  r_count :: nat

definition rw_free :: rwmutex where
  "rw_free = \<lparr>w_held = False, r_count = 0\<rparr>"

section \<open>The Env structure\<close>

text \<open>
  The fields of \<open>Env\<close>; the embedded \<open>*lmdb.Env\<close> is seen through \<open>history\<close>, the
  calls made on it so far, together with the lock operations and the sleeps.
  \<open>DelayRepeatResize\<close> is a function value that may be \<open>nil\<close>.
\<close>

record Env =
  history :: "event list"
  RetryResize :: go_int
  DelayRepeatResize :: "(go_int \<Rightarrow> duration) option"
  noLock :: bool
  txnlock :: rwmutex

definition emit :: "event \<Rightarrow> Env \<Rightarrow> Env" where
  "emit e r = r\<lparr>history := history r @ [e]\<rparr>"

definition txns :: "Env \<Rightarrow> nat" where
  "txns r = count_ev is_EvTxn (history r)"

definition adoptions :: "Env \<Rightarrow> nat" where
  "adoptions r = count_ev is_EvSetMapSize (history r)"

text \<open>Sequencing: the second call runs only when the first one returned.\<close>

definition and_then ::
  "'a outcome \<times> Env \<Rightarrow> ('a \<Rightarrow> Env \<Rightarrow> 'b outcome \<times> Env) \<Rightarrow> 'b outcome \<times> Env" where
  "and_then m f =
     (case m of
        (Returned x, r) \<Rightarrow> f x r
      | (Panicked e, r) \<Rightarrow> (Panicked e, r)
      | (Fatal, r) \<Rightarrow> (Fatal, r)
      | (Blocked, r) \<Rightarrow> (Blocked, r))"

definition rw_Lock :: "Env \<Rightarrow> unit outcome \<times> Env" where
  "rw_Lock r =
     (if w_held (txnlock r) then (Blocked, emit EvLock r)
      else if 0 < r_count (txnlock r) then (Blocked, emit EvLock r)
      else (Returned (), (emit EvLock r)\<lparr>txnlock := (txnlock r)\<lparr>w_held := True\<rparr>\<rparr>))"

definition rw_Unlock :: "Env \<Rightarrow> unit outcome \<times> Env" where
  "rw_Unlock r =
     (if \<not> w_held (txnlock r) then (Fatal, emit EvUnlock r)
      else (Returned (), (emit EvUnlock r)\<lparr>txnlock := (txnlock r)\<lparr>w_held := False\<rparr>\<rparr>))"

definition rw_RLock :: "Env \<Rightarrow> unit outcome \<times> Env" where
  "rw_RLock r =
     (if w_held (txnlock r) then (Blocked, emit EvRLock r)
      else (Returned (),
            (emit EvRLock r)\<lparr>txnlock := (txnlock r)\<lparr>r_count := r_count (txnlock r) + 1\<rparr>\<rparr>))"

definition rw_RUnlock :: "Env \<Rightarrow> unit outcome \<times> Env" where
  "rw_RUnlock r =
     (if r_count (txnlock r) = 0 then (Fatal, emit EvRUnlock r)
      else (Returned (),
            (emit EvRUnlock r)\<lparr>txnlock := (txnlock r)\<lparr>r_count := r_count (txnlock r) - 1\<rparr>\<rparr>))"

definition time_Sleep :: "duration \<Rightarrow> Env \<Rightarrow> unit outcome \<times> Env" where
  "time_Sleep d r = (Returned (), emit (EvSleep d) r)"

text \<open>The calls on the embedded engine handle.\<close>

definition Env_Open ::
  "world \<Rightarrow> string \<Rightarrow> go_uint \<Rightarrow> filemode \<Rightarrow> Env \<Rightarrow> error outcome \<times> Env" where
  "Env_Open w path flags mode r =
     (Returned (lmdb_Open w (count_ev is_EvOpen (history r)) path flags mode),
      emit (EvOpen path flags mode) r)"

definition Env_SetFlags :: "world \<Rightarrow> go_uint \<Rightarrow> Env \<Rightarrow> error outcome \<times> Env" where
  "Env_SetFlags w flags r =
     (Returned (lmdb_SetFlags w (count_ev is_EvSetFlags (history r)) flags),
      emit (EvSetFlags flags) r)"

definition Env_UnsetFlags :: "world \<Rightarrow> go_uint \<Rightarrow> Env \<Rightarrow> error outcome \<times> Env" where
  "Env_UnsetFlags w flags r =
     (Returned (lmdb_UnsetFlags w (count_ev is_EvUnsetFlags (history r)) flags),
      emit (EvUnsetFlags flags) r)"

definition Env_SetMapSize :: "world \<Rightarrow> int64 \<Rightarrow> Env \<Rightarrow> error outcome \<times> Env" where
  "Env_SetMapSize w sz r =
     (Returned (lmdb_SetMapSize w (adoptions r) sz), emit (EvSetMapSize sz) r)"

text \<open>
  A transaction body \<open>fn\<close> is given by what its executions return: \<open>fn n\<close> is the result
  of the execution that starts when \<open>n\<close> bodies have been executed on the environment.
\<close>

definition call_fn :: "(nat \<Rightarrow> error) \<Rightarrow> Env \<Rightarrow> error outcome \<times> Env" where
  "call_fn fn r = (Returned (fn (txns r)), emit EvTxn r)"

section \<open>The proxies for the flag-changing calls\<close>

definition Open ::
  "world \<Rightarrow> string \<Rightarrow> go_uint \<Rightarrow> filemode \<Rightarrow> Env \<Rightarrow> error outcome \<times> Env" where
  "Open w path flags mode r =
     and_then (Env_Open w path flags mode r) (\<lambda>err r1.
       if err \<noteq> None then (Returned err, r1)
       else if flags AND lmdb_NoLock w \<noteq> 0 then (Returned None, r1\<lparr>noLock := True\<rparr>)
       else (Returned None, r1))"

definition SetFlags :: "world \<Rightarrow> go_uint \<Rightarrow> Env \<Rightarrow> error outcome \<times> Env" where
  "SetFlags w flags r =
     and_then (Env_SetFlags w flags r) (\<lambda>err r1.
       if err \<noteq> None then (Returned err, r1)
       else if flags AND lmdb_NoLock w \<noteq> 0 then (Returned None, r1\<lparr>noLock := True\<rparr>)
       else (Returned None, r1))"

definition UnsetFlags :: "world \<Rightarrow> go_uint \<Rightarrow> Env \<Rightarrow> error outcome \<times> Env" where
  "UnsetFlags w flags r =
     and_then (Env_UnsetFlags w flags r) (\<lambda>err r1.
       if err \<noteq> None then (Returned err, r1)
       else if flags AND lmdb_NoLock w \<noteq> 0 then (Returned None, r1\<lparr>noLock := False\<rparr>)
       else (Returned None, r1))"

section \<open>Changing the map size\<close>

definition setMapSize :: "world \<Rightarrow> int64 \<Rightarrow> duration \<Rightarrow> Env \<Rightarrow> error outcome \<times> Env" where
  "setMapSize w sz delay r =
     and_then (rw_Lock r) (\<lambda>_ r1.
     and_then (if 0 <s delay then time_Sleep delay r1 else (Returned (), r1)) (\<lambda>_ r2.
     and_then (Env_SetMapSize w 0 r2) (\<lambda>err r3.
     and_then (rw_Unlock r3) (\<lambda>_ r4.
     (Returned err, r4)))))"

definition SetMapSize :: "world \<Rightarrow> int64 \<Rightarrow> Env \<Rightarrow> error outcome \<times> Env" where
  "SetMapSize w sz r =
     and_then (rw_Lock r) (\<lambda>_ r1.
     and_then (setMapSize w sz 0 r1) (\<lambda>err r2.
     and_then (rw_Unlock r2) (\<lambda>_ r3.
     (Returned err, r3))))"

section \<open>Running transactions\<close>

definition run :: "bool \<Rightarrow> (nat \<Rightarrow> error) \<Rightarrow> Env \<Rightarrow> error outcome \<times> Env" where
  "run readonly fn r =
     (if noLock r \<and> \<not> readonly then
        and_then (rw_Lock r) (\<lambda>_ r1.
        and_then (call_fn fn r1) (\<lambda>err r2.
        and_then (rw_Unlock r2) (\<lambda>_ r3.
        (Returned err, r3))))
      else
        and_then (rw_RLock r) (\<lambda>_ r1.
        and_then (call_fn fn r1) (\<lambda>err r2.
        and_then (rw_RUnlock r2) (\<lambda>_ r3.
        (Returned err, r3)))))"

definition getRetryResize :: "world \<Rightarrow> Env \<Rightarrow> go_int" where
  "getRetryResize w r =
     (if RetryResize r \<noteq> 0 then RetryResize r else DefaultRetryResize w)"

definition getDelayRepeatResize :: "world \<Rightarrow> Env \<Rightarrow> go_int \<Rightarrow> duration" where
  "getDelayRepeatResize w r i =
     (case DelayRepeatResize r of
        Some f \<Rightarrow> f i
      | None \<Rightarrow> DefaultDelayRepeatResize w)"

definition retryResized :: "world \<Rightarrow> go_int \<Rightarrow> error \<Rightarrow> Env \<Rightarrow> bool outcome \<times> Env" where
  "retryResized w i err r =
     (if \<not> IsMapResized err then (Returned False, r)
      else
        let maxRetry = getRetryResize w r in
        if maxRetry \<le>s 0 then (Returned False, r)
        else if maxRetry <s i then (Returned False, r)
        else
          let delay = (if 0 <s i then getDelayRepeatResize w r (delay_arg w) else 0) in
          and_then (setMapSize w 0 delay r) (\<lambda>err' r1.
            case err' of
              Some e \<Rightarrow> (Panicked e, r1)
            | None \<Rightarrow> (Returned True, r1)))"

text \<open>
  The loop of \<open>runRetry\<close> has no bound of its own (\<open>for i := 0; ; i++\<close>), so it is a
  partial function: \<open>None\<close> means that the loop runs forever.
\<close>

partial_function (option) runRetry_loop ::
  "world \<Rightarrow> bool \<Rightarrow> (nat \<Rightarrow> error) \<Rightarrow> go_int \<Rightarrow> Env \<Rightarrow> (error outcome \<times> Env) option" where
  "runRetry_loop w readonly fn i r =
     (case run readonly fn r of
        (Returned err, r1) \<Rightarrow>
          (case retryResized w i err r1 of
             (Returned again, r2) \<Rightarrow>
               if \<not> again then Some (Returned err, r2)
               else runRetry_loop w readonly fn (i + 1) r2
           | (Panicked e, r2) \<Rightarrow> Some (Panicked e, r2)
           | (Fatal, r2) \<Rightarrow> Some (Fatal, r2)
           | (Blocked, r2) \<Rightarrow> Some (Blocked, r2))
      | (Panicked e, r1) \<Rightarrow> Some (Panicked e, r1)
      | (Fatal, r1) \<Rightarrow> Some (Fatal, r1)
      | (Blocked, r1) \<Rightarrow> Some (Blocked, r1))"

declare runRetry_loop.simps [code]

definition runRetry ::
  "world \<Rightarrow> bool \<Rightarrow> (nat \<Rightarrow> error) \<Rightarrow> Env \<Rightarrow> (error outcome \<times> Env) option" where
  "runRetry w readonly fn r = runRetry_loop w readonly fn 0 r"

text \<open>
  The four entry points; \<open>op\<close> gives what the engine's \<open>RunTxn\<close>, \<open>View\<close>, \<open>Update\<close> or
  \<open>UpdateLocked\<close> returns for the caller's operation at each execution.
\<close>

definition RunTxn ::
  "world \<Rightarrow> go_uint \<Rightarrow> (nat \<Rightarrow> error) \<Rightarrow> Env \<Rightarrow> (error outcome \<times> Env) option" where
  "RunTxn w flags op r = runRetry w (flags AND lmdb_Readonly w \<noteq> 0) op r"

definition View :: "world \<Rightarrow> (nat \<Rightarrow> error) \<Rightarrow> Env \<Rightarrow> (error outcome \<times> Env) option" where
  "View w op r = runRetry w True op r"

definition Update :: "world \<Rightarrow> (nat \<Rightarrow> error) \<Rightarrow> Env \<Rightarrow> (error outcome \<times> Env) option" where
  "Update w op r = runRetry w False op r"

definition UpdateLocked ::
  "world \<Rightarrow> (nat \<Rightarrow> error) \<Rightarrow> Env \<Rightarrow> (error outcome \<times> Env) option" where
  "UpdateLocked w op r = runRetry w False op r"

section \<open>Concrete surroundings for evaluation\<close>

text \<open>
  An engine whose calls all succeed, with the flag bits of LMDB
  (\<open>MDB_NOLOCK = 0x400000\<close>, \<open>MDB_RDONLY = 0x20000\<close>) and the initial values of the
  two package variables (2 retries, one millisecond).
\<close>

definition defaults :: world where
  "defaults =
     \<lparr>lmdb_NoLock = 0x400000, lmdb_Readonly = 0x20000,
      lmdb_Open = (\<lambda>_ _ _ _. None), lmdb_SetFlags = (\<lambda>_ _. None),
      lmdb_UnsetFlags = (\<lambda>_ _. None), lmdb_SetMapSize = (\<lambda>_ _. None),
      DefaultRetryResize = 2, DefaultDelayRepeatResize = 1000000, delay_arg = 0\<rparr>"

definition fresh :: "go_int \<Rightarrow> Env" where
  "fresh n =
     \<lparr>history = [], RetryResize = n, DelayRepeatResize = None, noLock = False,
      txnlock = rw_free\<rparr>"

text \<open>Bodies: one that fails with the map-resized failure \<open>n\<close> times and then succeeds,
  and one that always fails with it.\<close>

definition resized_times :: "nat \<Rightarrow> nat \<Rightarrow> error" where
  "resized_times n j = (if j < n then Some MapResized else None)"

definition resized_always :: "nat \<Rightarrow> error" where
  "resized_always j = Some MapResized"

section \<open>Observing a call\<close>

text \<open>The events that a call added to the history, and the requests for the lock among them.\<close>

fun is_acquire :: "event \<Rightarrow> bool" where
  "is_acquire EvLock = True"
| "is_acquire EvRLock = True"
| "is_acquire _ = False"

definition new_events :: "Env \<Rightarrow> Env \<Rightarrow> event list" where
  "new_events r r' = drop (length (history r)) (history r')"

text \<open>A delay function that grows with the attempt index (one millisecond per attempt), and
  an engine whose flag-changing calls all fail.\<close>

definition scaled_delay :: "go_int \<Rightarrow> duration" where
  "scaled_delay i = 1000000 * i"

definition failing_engine :: world where
  "failing_engine =
     defaults\<lparr>lmdb_Open := (\<lambda>_ _ _ _. Some (OtherError ''EACCES'')),
              lmdb_SetFlags := (\<lambda>_ _. Some (OtherError ''EINVAL'')),
              lmdb_UnsetFlags := (\<lambda>_ _. Some (OtherError ''EINVAL''))\<rparr>"

section \<open>Lemmas about the model\<close>

lemma count_ev_Nil [simp]: "count_ev P [] = 0"
  by (simp add: count_ev_def)

lemma count_ev_append [simp]: "count_ev P (xs @ ys) = count_ev P xs + count_ev P ys"
  by (simp add: count_ev_def)

lemma count_ev_Cons [simp]: "count_ev P (x # xs) = (if P x then 1 else 0) + count_ev P xs"
  by (simp add: count_ev_def)

lemma run_free:
  assumes "txnlock r = rw_free"
  shows "run readonly fn r =
    (Returned (fn (txns r)),
     r\<lparr>history := history r @
        (if noLock r \<and> \<not> readonly then [EvLock, EvTxn, EvUnlock]
         else [EvRLock, EvTxn, EvRUnlock])\<rparr>)"
  using assms
  by (cases r)
     (simp add: run_def and_then_def rw_Lock_def rw_Unlock_def rw_RLock_def rw_RUnlock_def
        call_fn_def emit_def txns_def rw_free_def)

lemma setMapSize_free:
  assumes "txnlock r = rw_free"
  shows "setMapSize w sz d r =
    (Returned (lmdb_SetMapSize w (adoptions r) 0),
     r\<lparr>history := history r @
        (if 0 <s d then [EvLock, EvSleep d, EvSetMapSize 0, EvUnlock]
         else [EvLock, EvSetMapSize 0, EvUnlock])\<rparr>)"
  using assms
  by (cases r)
     (simp add: setMapSize_def and_then_def rw_Lock_def rw_Unlock_def time_Sleep_def
        Env_SetMapSize_def emit_def adoptions_def rw_free_def)

lemma retryResized_other:
  "\<not> IsMapResized err \<Longrightarrow> retryResized w i err r = (Returned False, r)"
  by (simp add: retryResized_def)


lemma loop_return:
  assumes "run readonly fn r = (Returned err, r1)"
    and "retryResized w i err r1 = (Returned False, r2)"
  shows "runRetry_loop w readonly fn i r = Some (Returned err, r2)"
  by (subst runRetry_loop.simps) (simp add: assms)

lemma loop_again:
  assumes "run readonly fn r = (Returned err, r1)"
    and "retryResized w i err r1 = (Returned True, r2)"
  shows "runRetry_loop w readonly fn i r = runRetry_loop w readonly fn (i + 1) r2"
  by (subst runRetry_loop.simps) (simp add: assms)

lemma sint_succ:
  fixes i m :: "64 word"
  assumes "sint i < sint m"
  shows "sint (i + 1) = sint i + 1"
proof -
  have "sint m < 2 ^ 63" using sint_lt [of m] by simp
  moreover have "- (2 ^ 63) \<le> sint i" using sint_ge [of i] by simp
  ultimately show ?thesis
    using assms by (simp add: sint_word_ariths signed_take_bit_int_eq_self)
qed

lemma retryResized_adopt:
  assumes "txnlock r = rw_free"
    and "0 <s getRetryResize w r"
    and "\<not> getRetryResize w r <s i"
    and "lmdb_SetMapSize w (adoptions r) 0 = None"
  shows "\<exists>evs. retryResized w i (Some MapResized) r =
           (Returned True, r\<lparr>history := history r @ evs\<rparr>) \<and>
         count_ev is_EvSetMapSize evs = 1 \<and> count_ev is_EvTxn evs = 0"
proof -
  define d where "d = (if 0 <s i then getDelayRepeatResize w r (delay_arg w) else 0)"
  define evs where "evs = (if 0 <s d then [EvLock, EvSleep d, EvSetMapSize 0, EvUnlock]
         else [EvLock, EvSetMapSize 0, EvUnlock])"
  have le: "\<not> getRetryResize w r \<le>s 0"
    using assms(2) by (simp add: word_sle_eq word_sless_alt)
  have "retryResized w i (Some MapResized) r = (Returned True, r\<lparr>history := history r @ evs\<rparr>)"
    using assms(3,4) le
    by (simp add: retryResized_def IsMapResized_def Let_def setMapSize_free [OF assms(1)]
          and_then_def d_def evs_def)
  moreover have "count_ev is_EvSetMapSize evs = 1" "count_ev is_EvTxn evs = 0"
    by (simp_all add: evs_def)
  ultimately show ?thesis by blast
qed

lemma getRetryResize_history [simp]:
  "getRetryResize w (r\<lparr>history := h\<rparr>) = getRetryResize w r"
  by (simp add: getRetryResize_def)

lemma txns_history [simp]: "txns (r\<lparr>history := history r @ evs\<rparr>) = txns r + count_ev is_EvTxn evs"
  by (simp add: txns_def)

lemma adoptions_history [simp]:
  "adoptions (r\<lparr>history := history r @ evs\<rparr>) = adoptions r + count_ev is_EvSetMapSize evs"
  by (simp add: adoptions_def)

lemma round_resized:
  assumes free: "txnlock r = rw_free"
    and pos: "0 <s getRetryResize w r"
    and le: "\<not> getRetryResize w r <s i"
    and body: "fn (txns r) = Some MapResized"
    and adopt: "lmdb_SetMapSize w (adoptions r) 0 = None"
  shows "\<exists>evs. runRetry_loop w readonly fn i r =
           runRetry_loop w readonly fn (i + 1) (r\<lparr>history := history r @ evs\<rparr>) \<and>
         count_ev is_EvSetMapSize evs = 1 \<and> count_ev is_EvTxn evs = 1"
proof -
  define e1 where "e1 = (if noLock r \<and> \<not> readonly then [EvLock, EvTxn, EvUnlock]
         else [EvRLock, EvTxn, EvRUnlock])"
  define r1 where "r1 = r\<lparr>history := history r @ e1\<rparr>"
  have run1: "run readonly fn r = (Returned (Some MapResized), r1)"
    using run_free [OF free, of readonly fn] body by (simp add: r1_def e1_def)
  have c1: "count_ev is_EvSetMapSize e1 = 0" "count_ev is_EvTxn e1 = 1"
    by (simp_all add: e1_def)
  have "txnlock r1 = rw_free" "0 <s getRetryResize w r1" "\<not> getRetryResize w r1 <s i"
    "lmdb_SetMapSize w (adoptions r1) 0 = None"
    using free pos le adopt c1 by (simp_all add: r1_def)
  from retryResized_adopt [where i = i, OF this] obtain e2 where
    retry: "retryResized w i (Some MapResized) r1 = (Returned True, r1\<lparr>history := history r1 @ e2\<rparr>)"
    and c2: "count_ev is_EvSetMapSize e2 = 1" "count_ev is_EvTxn e2 = 0"
    by blast
  have "r1\<lparr>history := history r1 @ e2\<rparr> = r\<lparr>history := history r @ (e1 @ e2)\<rparr>"
    by (simp add: r1_def)
  with loop_again [OF run1 retry]
  have "runRetry_loop w readonly fn i r =
        runRetry_loop w readonly fn (i + 1) (r\<lparr>history := history r @ (e1 @ e2)\<rparr>)"
    by simp
  moreover have "count_ev is_EvSetMapSize (e1 @ e2) = 1" "count_ev is_EvTxn (e1 @ e2) = 1"
    using c1 c2 by simp_all
  ultimately show ?thesis by blast
qed

lemma rounds_resized:
  assumes "txnlock r = rw_free"
    and "0 \<le> sint i"
    and "sint i + int k \<le> sint (getRetryResize w r)"
    and "\<forall>j<k. fn (txns r + j) = Some MapResized"
    and "\<forall>j<k. lmdb_SetMapSize w (adoptions r + j) 0 = None"
  shows "\<exists>evs. runRetry_loop w readonly fn i r =
           runRetry_loop w readonly fn (i + word_of_nat k) (r\<lparr>history := history r @ evs\<rparr>) \<and>
         count_ev is_EvSetMapSize evs = k \<and> count_ev is_EvTxn evs = k"
  using assms
proof (induction k arbitrary: i r)
  case 0
  have "runRetry_loop w readonly fn i r =
        runRetry_loop w readonly fn (i + word_of_nat 0) (r\<lparr>history := history r @ []\<rparr>)"
    by simp
  then show ?case by (metis count_ev_Nil)
next
  case (Suc k)
  let ?m = "getRetryResize w r"
  have lt: "sint i < sint ?m" using Suc.prems(3) by simp
  have pos: "0 <s ?m" using Suc.prems(2) lt by (simp add: word_sless_alt)
  have le: "\<not> ?m <s i" using lt by (simp add: word_sless_alt)
  have body: "fn (txns r) = Some MapResized" using Suc.prems(4) by (metis add.right_neutral zero_less_Suc)
  have adopt: "lmdb_SetMapSize w (adoptions r) 0 = None"
    using Suc.prems(5) by (metis add.right_neutral zero_less_Suc)
  from round_resized [where readonly = readonly and fn = fn and r = r and w = w, OF Suc.prems(1) pos le body adopt] obtain e1 where
    step: "runRetry_loop w readonly fn i r =
           runRetry_loop w readonly fn (i + 1) (r\<lparr>history := history r @ e1\<rparr>)"
    and c1: "count_ev is_EvSetMapSize e1 = 1" "count_ev is_EvTxn e1 = 1"
    by blast
  let ?r1 = "r\<lparr>history := history r @ e1\<rparr>"
  have s1: "sint (i + 1) = sint i + 1" using lt by (rule sint_succ)
  have p1: "txnlock ?r1 = rw_free" using Suc.prems(1) by simp
  have p2: "0 \<le> sint (i + 1)" using s1 Suc.prems(2) by simp
  have p3: "sint (i + 1) + int k \<le> sint (getRetryResize w ?r1)"
    using s1 Suc.prems(3) by simp
  have p4: "\<forall>j<k. fn (txns ?r1 + j) = Some MapResized"
    using Suc.prems(4) c1 by (auto simp: )
  have p5: "\<forall>j<k. lmdb_SetMapSize w (adoptions ?r1 + j) 0 = None"
    using Suc.prems(5) c1 by auto
  from Suc.IH [OF p1 p2 p3 p4 p5] obtain e2 where
    rest: "runRetry_loop w readonly fn (i + 1) ?r1 =
           runRetry_loop w readonly fn (i + 1 + word_of_nat k) (?r1\<lparr>history := history ?r1 @ e2\<rparr>)"
    and c2: "count_ev is_EvSetMapSize e2 = k" "count_ev is_EvTxn e2 = k"
    by blast
  have eq_r: "?r1\<lparr>history := history ?r1 @ e2\<rparr> = r\<lparr>history := history r @ (e1 @ e2)\<rparr>"
    by simp
  have eq_i: "i + 1 + word_of_nat k = i + word_of_nat (Suc k)"
    by simp
  have "runRetry_loop w readonly fn i r =
      runRetry_loop w readonly fn (i + word_of_nat (Suc k)) (r\<lparr>history := history r @ (e1 @ e2)\<rparr>)"
    unfolding step rest eq_r eq_i ..
  moreover have "count_ev is_EvSetMapSize (e1 @ e2) = Suc k" "count_ev is_EvTxn (e1 @ e2) = Suc k"
    using c1 c2 by simp_all
  ultimately show ?case by blast
qed

section \<open>The claims\<close>

text \<open>
  Claim C1 (a negative \<open>RetryResize\<close> retries without bound). The source gives up at
  once instead: with \<open>RetryResize = -1\<close> and a body that fails with the map-resized
  failure five times before it succeeds, \<open>runRetry\<close> returns the map-resized failure
  after one execution of the body and no call of the engine's \<open>SetMapSize\<close>, because
  \<open>retryResized\<close> answers \<open>false\<close> whenever \<open>maxRetry <= 0\<close>.
\<close>

theorem negative_RetryResize_gives_up_at_once:
  "sint (RetryResize (fresh (- 1))) = - 1 \<and>
   map_option (\<lambda>(x, r). (x, adoptions r, txns r))
     (runRetry defaults False (resized_times 5) (fresh (- 1))) =
   Some (Returned (Some MapResized), 0, 1)"
  by code_simp




text \<open>
  Claim C3 (three adoptions with \<open>RetryResize = 3\<close>, not four). The source performs
  four: with a body that always returns the map-resized failure, \<open>runRetry\<close> returns
  that failure after five executions of the body and four calls of the engine's
  \<open>SetMapSize\<close>, because \<open>retryResized\<close> gives up only when \<open>maxRetry < i\<close>.
\<close>

theorem RetryResize_3_adopts_four_times:
  "map_option (\<lambda>(x, r). (x, adoptions r, txns r))
     (runRetry defaults False resized_always (fresh 3)) =
   Some (Returned (Some MapResized), 4, 5)"
  by code_simp

text \<open>
  Claim C4. For every size and every environment the public \<open>SetMapSize\<close> does not
  return and never calls the engine's \<open>SetMapSize\<close>. Starting with a free lock, it
  takes the lock exclusively and then requests it a second time in \<open>setMapSize\<close>
  while it still holds it: the history grows by two \<open>Lock\<close> requests and nothing
  else, and the lock stays held by the writer.
\<close>

theorem SetMapSize_blocks_on_its_own_lock:
  "fst (SetMapSize w sz r) = Blocked \<and>
   adoptions (snd (SetMapSize w sz r)) = adoptions r \<and>
   SetMapSize w sz (r\<lparr>txnlock := rw_free\<rparr>) =
     (Blocked, r\<lparr>history := history r @ [EvLock, EvLock],
                 txnlock := \<lparr>w_held = True, r_count = 0\<rparr>\<rparr>)"
  by (simp add: SetMapSize_def setMapSize_def and_then_def rw_Lock_def emit_def adoptions_def
        rw_free_def)

text \<open>
  Claim C5. The size given to \<open>setMapSize\<close> or to the public \<open>SetMapSize\<close> has no
  effect on what they do: the only call of the engine's \<open>SetMapSize\<close> that
  \<open>setMapSize\<close> makes (when it obtains the lock) has the argument 0, and the public
  \<open>SetMapSize\<close> makes none.
\<close>

theorem setMapSize_passes_zero:
  "setMapSize w sz d r = setMapSize w sz' d r \<and>
   SetMapSize w sz r = SetMapSize w sz' r \<and>
   filter is_EvSetMapSize (new_events r (snd (setMapSize w sz d r))) =
     (if w_held (txnlock r) then [] else if 0 < r_count (txnlock r) then []
      else [EvSetMapSize 0]) \<and>
   filter is_EvSetMapSize (new_events r (snd (SetMapSize w sz r))) = []"
  by (simp add: SetMapSize_def setMapSize_def and_then_def rw_Lock_def rw_Unlock_def emit_def
        new_events_def time_Sleep_def Env_SetMapSize_def)

text \<open>
  Claim C6. Let \<open>RetryResize\<close> be \<open>k + 1\<close>, the lock free, and let the body return the
  map-resized failure on its next \<open>k\<close> executions and succeed on the one after. When
  the \<open>k\<close> calls of the engine's \<open>SetMapSize\<close> succeed (a failure there is a panic),
  \<open>runRetry\<close> returns success, having called the engine's \<open>SetMapSize\<close> exactly
  \<open>k\<close> times and executed the body exactly \<open>k + 1\<close> times.
\<close>

theorem runRetry_succeeds_after_k_resizes:
  assumes free: "txnlock r = rw_free"
    and bound: "sint (RetryResize r) = int k + 1"
    and fails: "\<forall>j<k. fn (txns r + j) = Some MapResized"
    and succeeds: "fn (txns r + k) = None"
    and adopt: "\<forall>j<k. lmdb_SetMapSize w (adoptions r + j) 0 = None"
  shows "\<exists>r'. runRetry w readonly fn r = Some (Returned None, r') \<and>
           adoptions r' = adoptions r + k \<and> txns r' = txns r + k + 1"
proof -
  have "RetryResize r \<noteq> 0" using bound by auto
  then have m: "getRetryResize w r = RetryResize r" by (simp add: getRetryResize_def)
  have "sint (0 :: go_int) + int k \<le> sint (getRetryResize w r)"
    using bound m by simp
  from rounds_resized [where i = 0 and fn = fn and r = r and w = w and k = k and readonly = readonly,
      OF free _ this fails adopt]
  obtain evs where
    loop: "runRetry_loop w readonly fn 0 r =
           runRetry_loop w readonly fn (0 + word_of_nat k) (r\<lparr>history := history r @ evs\<rparr>)"
    and c: "count_ev is_EvSetMapSize evs = k" "count_ev is_EvTxn evs = k"
    by auto
  let ?r1 = "r\<lparr>history := history r @ evs\<rparr>"
  have free1: "txnlock ?r1 = rw_free" using free by simp
  have t1: "txns ?r1 = txns r + k" using c by simp
  obtain r2 where run2: "run readonly fn ?r1 = (Returned None, r2)"
    and c2: "adoptions r2 = adoptions ?r1" "txns r2 = txns ?r1 + 1"
    using run_free [OF free1, of readonly fn] succeeds t1 by (simp add: adoptions_def txns_def)
  have "retryResized w (0 + word_of_nat k) None r2 = (Returned False, r2)"
    by (rule retryResized_other) (simp add: IsMapResized_def)
  from loop_return [OF run2 this] loop
  have "runRetry w readonly fn r = Some (Returned None, r2)"
    by (simp add: runRetry_def)
  moreover have "adoptions r2 = adoptions r + k" "txns r2 = txns r + k + 1"
    using c2 c by simp_all
  ultimately show ?thesis by blast
qed

text \<open>Claim C6 at \<open>k = 2\<close>, \<open>RetryResize = 3\<close>.\<close>

theorem runRetry_succeeds_after_k_resizes_witness:
  "\<exists>r'. runRetry defaults False (resized_times 2) (fresh 3) = Some (Returned None, r') \<and>
     adoptions r' = 2 \<and> txns r' = 3"
proof -
  have start: "txns (fresh 3) = 0" "adoptions (fresh 3) = 0"
    by (simp_all add: fresh_def txns_def adoptions_def)
  have free: "txnlock (fresh 3) = rw_free"
    by (simp add: fresh_def)
  have bound: "sint (RetryResize (fresh 3)) = int 2 + 1"
    by (simp add: fresh_def)
  have fails: "\<forall>j<2. resized_times 2 (txns (fresh 3) + j) = Some MapResized"
    by (simp add: start resized_times_def)
  have succeeds: "resized_times 2 (txns (fresh 3) + 2) = None"
    by (simp add: start resized_times_def)
  have adopt: "\<forall>j<2. lmdb_SetMapSize defaults (adoptions (fresh 3) + j) 0 = None"
    by (simp add: defaults_def)
  from runRetry_succeeds_after_k_resizes [where r = "fresh 3" and k = 2 and fn = "resized_times 2" and w = defaults
      and readonly = False, OF free bound fails succeeds adopt]
  show ?thesis by (simp add: start numeral_2_eq_2 numeral_3_eq_3)
qed

text \<open>
  Claim C7. When the engine's \<open>Open\<close>, \<open>SetFlags\<close> or \<open>UnsetFlags\<close> fails with an
  error \<open>e\<close>, the proxy returns \<open>e\<close> itself and leaves \<open>noLock\<close> as it was.
\<close>

theorem failed_flag_change_keeps_noLock:
  "(lmdb_Open w (count_ev is_EvOpen (history r)) path flags mode = Some e \<longrightarrow>
      fst (Open w path flags mode r) = Returned (Some e) \<and>
      noLock (snd (Open w path flags mode r)) = noLock r) \<and>
   (lmdb_SetFlags w (count_ev is_EvSetFlags (history r)) flags = Some e \<longrightarrow>
      fst (SetFlags w flags r) = Returned (Some e) \<and>
      noLock (snd (SetFlags w flags r)) = noLock r) \<and>
   (lmdb_UnsetFlags w (count_ev is_EvUnsetFlags (history r)) flags = Some e \<longrightarrow>
      fst (UnsetFlags w flags r) = Returned (Some e) \<and>
      noLock (snd (UnsetFlags w flags r)) = noLock r)"
  by (simp add: Open_def SetFlags_def UnsetFlags_def Env_Open_def Env_SetFlags_def
        Env_UnsetFlags_def and_then_def emit_def)

text \<open>Claim C7 with an engine that fails, for flags that hold the \<open>NoLock\<close> bit.\<close>

theorem failed_flag_change_keeps_noLock_witness:
  "fst (Open failing_engine ''/db'' 0x400000 0x1A4 (fresh 0)) = Returned (Some (OtherError ''EACCES'')) \<and>
   noLock (snd (Open failing_engine ''/db'' 0x400000 0x1A4 (fresh 0))) = False \<and>
   fst (SetFlags failing_engine 0x400000 (fresh 0)) = Returned (Some (OtherError ''EINVAL'')) \<and>
   noLock (snd (SetFlags failing_engine 0x400000 (fresh 0))) = False \<and>
   fst (UnsetFlags failing_engine 0x400000 ((fresh 0)\<lparr>noLock := True\<rparr>)) =
     Returned (Some (OtherError ''EINVAL'')) \<and>
   noLock (snd (UnsetFlags failing_engine 0x400000 ((fresh 0)\<lparr>noLock := True\<rparr>))) = True"
  using failed_flag_change_keeps_noLock [of failing_engine "fresh 0" "''/db''" "0x400000" "0x1A4" "OtherError ''EACCES''"]
    failed_flag_change_keeps_noLock [of failing_engine "fresh 0" "''/db''" "0x400000" "0x1A4" "OtherError ''EINVAL''"]
    failed_flag_change_keeps_noLock [of failing_engine "(fresh 0)\<lparr>noLock := True\<rparr>" "''/db''" "0x400000" "0x1A4" "OtherError ''EINVAL''"]
  by (simp add: failing_engine_def defaults_def fresh_def)

text \<open>
  Claim C8. \<open>run\<close> requests the lock once: in exclusive mode (\<open>Lock\<close>) when the
  transaction is read-write and \<open>noLock\<close> is set, in shared mode (\<open>RLock\<close>) in every
  other case. A change of the map size requests the exclusive mode.
\<close>

theorem lock_mode_of_dispatch:
  "filter is_acquire (new_events r (snd (run readonly fn r))) =
     [if \<not> readonly \<and> noLock r then EvLock else EvRLock] \<and>
   filter is_acquire (new_events r (snd (setMapSize w sz d r))) = [EvLock] \<and>
   hd (new_events r (snd (SetMapSize w sz r))) = EvLock"
  by (simp add: run_def SetMapSize_def setMapSize_def and_then_def rw_Lock_def rw_Unlock_def
        rw_RLock_def rw_RUnlock_def emit_def call_fn_def
        new_events_def time_Sleep_def Env_SetMapSize_def)

text \<open>
  Claim C9. When the lock is free and the first execution of the body fails with an
  error \<open>e\<close> other than the map-resized failure, \<open>runRetry\<close> returns \<open>e\<close> itself;
  the history grows by the lock request, the one execution of the body and the release,
  so the body is not executed again and the map size is not adopted.
\<close>

theorem other_failure_returned_at_once:
  assumes free: "txnlock r = rw_free"
    and fails: "fn (txns r) = Some e"
    and other: "e \<noteq> MapResized"
  shows "runRetry w readonly fn r =
     Some (Returned (Some e),
       r\<lparr>history := history r @
          (if noLock r \<and> \<not> readonly then [EvLock, EvTxn, EvUnlock]
           else [EvRLock, EvTxn, EvRUnlock])\<rparr>)"
proof -
  let ?r1 = "r\<lparr>history := history r @
          (if noLock r \<and> \<not> readonly then [EvLock, EvTxn, EvUnlock]
           else [EvRLock, EvTxn, EvRUnlock])\<rparr>"
  have run1: "run readonly fn r = (Returned (Some e), ?r1)"
    using run_free [OF free, of readonly fn] fails by simp
  have "retryResized w 0 (Some e) ?r1 = (Returned False, ?r1)"
    using other by (intro retryResized_other) (simp add: IsMapResized_def)
  from loop_return [OF run1 this] show ?thesis
    by (simp add: runRetry_def)
qed

text \<open>Claim C9 for a body that fails with an input-output error.\<close>

theorem other_failure_returned_at_once_witness:
  "runRetry defaults False (\<lambda>_. Some (OtherError ''EIO'')) (fresh 3) =
     Some (Returned (Some (OtherError ''EIO'')),
           (fresh 3)\<lparr>history := [EvRLock, EvTxn, EvRUnlock]\<rparr>)"
  using other_failure_returned_at_once [of "fresh 3" "\<lambda>_. Some (OtherError ''EIO'')" "OtherError ''EIO''" defaults False]
  by (simp add: fresh_def)

text \<open>
  Claim C10 (the delay at attempt \<open>i > 0\<close> is the delay function applied to \<open>i\<close>).
  The source does not pass \<open>i\<close> to \<open>getDelayRepeatResize\<close>. With a delay function of
  one millisecond per attempt the claim asks for one millisecond at attempt 1 and for
  two at attempt 2; whatever value \<open>a\<close> reaches the method in place of the missing
  argument, \<open>retryResized\<close> does the same at both attempts, sleep included. At
  attempt 0 it adopts the map size without a sleep, as the claim says.
\<close>

theorem retry_delay_ignores_attempt_index:
  "getDelayRepeatResize (defaults\<lparr>delay_arg := a\<rparr>) ((fresh 2)\<lparr>DelayRepeatResize := Some scaled_delay\<rparr>) 1 = 1000000 \<and>
   getDelayRepeatResize (defaults\<lparr>delay_arg := a\<rparr>) ((fresh 2)\<lparr>DelayRepeatResize := Some scaled_delay\<rparr>) 2 = 2000000 \<and>
   retryResized (defaults\<lparr>delay_arg := a\<rparr>) 1 (Some MapResized)
       ((fresh 2)\<lparr>DelayRepeatResize := Some scaled_delay\<rparr>) =
   retryResized (defaults\<lparr>delay_arg := a\<rparr>) 2 (Some MapResized)
       ((fresh 2)\<lparr>DelayRepeatResize := Some scaled_delay\<rparr>) \<and>
   retryResized (defaults\<lparr>delay_arg := a\<rparr>) 0 (Some MapResized)
       ((fresh 2)\<lparr>DelayRepeatResize := Some scaled_delay\<rparr>) =
     (Returned True,
      (fresh 2)\<lparr>DelayRepeatResize := Some scaled_delay,
                history := [EvLock, EvSetMapSize 0, EvUnlock]\<rparr>)"
  by (simp add: retryResized_def getDelayRepeatResize_def getRetryResize_def fresh_def
        defaults_def scaled_delay_def IsMapResized_def word_sless_alt word_sle_eq
        setMapSize_def and_then_def rw_Lock_def rw_Unlock_def Env_SetMapSize_def emit_def
        rw_free_def)

end
